theory Spec2Isabelle
  imports Main "HOL-Library.AList"
begin

section \<open>Template values\<close>

text \<open>
  The provider walks a template that a YAML or JSON loader produced: nested dictionaries,
  lists and scalars. A dictionary is an association list, because Python dictionaries keep
  insertion order and the provider enumerates them in that order. The template is a tree:
  two resources never share one dictionary object.
\<close>

datatype pyval =
    PNone
  | PBool bool
  | PInt int
  | PStr string
  | PList "pyval list"
  | PDict "(string \<times> pyval) list"

type_synonym pydict = "(string \<times> pyval) list"

datatype error = ValueError | AttributeError | TypeError

text \<open>Python's truth value of an object, as tested by \<^verbatim>\<open>if x:\<close>.\<close>

fun truthy :: "pyval \<Rightarrow> bool" where
  "truthy PNone = False"
| "truthy (PBool b) = b"
| "truthy (PInt i) = (i \<noteq> 0)"
| "truthy (PStr s) = (s \<noteq> [])"
| "truthy (PList xs) = (xs \<noteq> [])"
| "truthy (PDict kvs) = (kvs \<noteq> [])"

text \<open>\<^verbatim>\<open>d.get(k, default)\<close> on a dictionary.\<close>

definition dict_get :: "pydict \<Rightarrow> string \<Rightarrow> pyval \<Rightarrow> pyval" where
  "dict_get d k dflt = (case map_of d k of None \<Rightarrow> dflt | Some v \<Rightarrow> v)"

text \<open>
  \<^verbatim>\<open>x.get(k, default)\<close> on any value: only dictionaries have the method, every other
  value raises AttributeError.
\<close>

fun py_get :: "pyval \<Rightarrow> string \<Rightarrow> pyval \<Rightarrow> error + pyval" where
  "py_get (PDict d) k dflt = Inr (dict_get d k dflt)"
| "py_get _ k dflt = Inl AttributeError"

text \<open>
  \<^verbatim>\<open>x[k] = v\<close> with a string key: a dictionary keeps the position of a key it already
  has and appends a new one; every other value raises TypeError. The dictionary is
  changed in place, so the model returns the dictionary as it is afterwards.
\<close>

fun py_setitem :: "pyval \<Rightarrow> string \<Rightarrow> pyval \<Rightarrow> error + pyval" where
  "py_setitem (PDict d) k v = Inr (PDict (AList.update k v d))"
| "py_setitem _ k v = Inl TypeError"

section \<open>Names declared outside the provider's file\<close>

text \<open>
  The provider reads three names whose declarations are not part of the sources: the type
  tag \<^verbatim>\<open>SERVERLESS_APPLICATION\<close> and the static method \<^verbatim>\<open>get_template\<close> of the base
  class, and the constant \<^verbatim>\<open>ZIP\<close> of the package-type module. They are parameters of
  the model. \<^verbatim>\<open>get_template\<close> is the template pre-processing, taken as a function from
  the caller's template and parameter overrides to the resolved template.
\<close>

record imported =
  SERVERLESS_APPLICATION :: string
  ZIP :: pyval
  get_template :: "pyval \<Rightarrow> pyval \<Rightarrow> pyval"


section \<open>The configuration record\<close>

text \<open>
  Modelled from the spec: the record type \<^verbatim>\<open>ServerlessApplication\<close> is used by the
  provider but declared nowhere in the sources. The spec gives an application record an
  identity, an optional display name, a location and the fields of its kind (parameters,
  tags, timeout). The fields below are the ones the provider's code names: the six keyword
  arguments of the constructor call in \<^verbatim>\<open>_build_serverless_application_configuration\<close>
  (\<open>name\<close> is the identity) and the attribute \<^verbatim>\<open>applicationname\<close> that \<^verbatim>\<open>get\<close>
  reads (the display name). The constructor call passes no \<^verbatim>\<open>applicationname\<close>; a
  record built by the provider holds None there.
\<close>

record ServerlessApplication =
  name :: string
  location :: pyval
  notification_arns :: pyval
  parameters :: pyval
  tags :: pyval
  timeout :: pyval
  applicationname :: pyval

type_synonym index = "(string \<times> ServerlessApplication) list"

section \<open>Conversion of one resource\<close>

text \<open>
  \<^verbatim>\<open>_build_serverless_application_configuration(name, location, resource_properties)\<close>.
  The source line \<^verbatim>\<open>location=location\<close> lacks its trailing comma; it is read as the
  keyword argument it spells.
\<close>

fun build_serverless_application_configuration ::
  "imported \<Rightarrow> string \<Rightarrow> pyval \<Rightarrow> pyval \<Rightarrow> error + ServerlessApplication" where
  "build_serverless_application_configuration env nm loc (PDict props) =
     Inr \<lparr>name = nm,
          location = loc,
          notification_arns = dict_get props ''NotificationARNs'' (ZIP env),
          parameters = dict_get props ''Parameters'' PNone,
          tags = dict_get props ''Tags'' PNone,
          timeout = dict_get props ''TimeoutInMinutes'' PNone,
          applicationname = PNone\<rparr>"
| "build_serverless_application_configuration env nm loc _ = Inl AttributeError"

text \<open>
  \<^verbatim>\<open>_convert_sam_serverless_application_resource(name, resource_properties,
  ignore_code_extraction_warnings)\<close>: the location is the \<^verbatim>\<open>Location\<close> property, None
  when the key is missing.
\<close>

definition convert_sam_serverless_application_resource ::
  "imported \<Rightarrow> string \<Rightarrow> pyval \<Rightarrow> bool \<Rightarrow> error + ServerlessApplication" where
  "convert_sam_serverless_application_resource env nm resource_properties
       ignore_code_extraction_warnings =
     (case py_get resource_properties ''Location'' PNone of
        Inl e \<Rightarrow> Inl e
      | Inr loc \<Rightarrow> build_serverless_application_configuration env nm loc resource_properties)"

section \<open>Extraction of the index\<close>

text \<open>
  The body of the loop in \<^verbatim>\<open>_extract_serverless_applications\<close>, for the resource
  \<open>resource\<close> declared under \<open>nm\<close>, with \<open>result\<close> the index built so far. It returns the
  resource as the body leaves it and either the exception raised or the new index.

  \<^verbatim>\<open>resource_properties\<close> is the resource's own \<^verbatim>\<open>Properties\<close> dictionary when the
  resource has one, and a fresh empty dictionary otherwise; the assignment
  \<^verbatim>\<open>resource_properties["Metadata"] = resource_metadata\<close> writes into that object. So
  when the resource has a \<^verbatim>\<open>Properties\<close> entry the write is visible in the resource.
\<close>

definition extract_resource ::
  "imported \<Rightarrow> bool \<Rightarrow> string \<Rightarrow> pyval \<Rightarrow> index \<Rightarrow> pyval \<times> (error + index)" where
  "extract_resource env ignore_code_extraction_warnings nm resource result =
     (case resource of
        PDict kvs \<Rightarrow>
          (let resource_type = dict_get kvs ''Type'' PNone;
               resource_properties = dict_get kvs ''Properties'' (PDict []);
               resource_metadata = dict_get kvs ''Metadata'' PNone
           in case (if truthy resource_metadata
                    then py_setitem resource_properties ''Metadata'' resource_metadata
                    else Inr resource_properties) of
                Inl e \<Rightarrow> (resource, Inl e)
              | Inr resource_properties' \<Rightarrow>
                  (let resource' =
                         (if map_of kvs ''Properties'' = None then resource
                          else PDict (AList.update ''Properties'' resource_properties' kvs))
                   in if resource_type = PStr (SERVERLESS_APPLICATION env)
                      then (case convert_sam_serverless_application_resource env nm
                                   resource_properties' ignore_code_extraction_warnings of
                              Inl e \<Rightarrow> (resource', Inl e)
                            | Inr app \<Rightarrow> (resource', Inr (AList.update nm app result)))
                      else (resource', Inr result)))
      | _ \<Rightarrow> (resource, Inl AttributeError))"

text \<open>
  The loop over \<^verbatim>\<open>resources.items()\<close>. It returns the resource mapping as the loop
  leaves it (the resources visited so far possibly written to) and the outcome; an
  exception ends the loop at the resource that raised it.
\<close>

fun extract_loop ::
  "imported \<Rightarrow> bool \<Rightarrow> pydict \<Rightarrow> index \<Rightarrow> pydict \<times> (error + index)" where
  "extract_loop env ign [] result = ([], Inr result)"
| "extract_loop env ign ((nm, resource) # rest) result =
     (case extract_resource env ign nm resource result of
        (resource', Inl e) \<Rightarrow> ((nm, resource') # rest, Inl e)
      | (resource', Inr result') \<Rightarrow>
          (case extract_loop env ign rest result' of
             (rest', out) \<Rightarrow> ((nm, resource') # rest', out)))"

definition extract_serverless_applications ::
  "imported \<Rightarrow> pydict \<Rightarrow> bool \<Rightarrow> pydict \<times> (error + index)" where
  "extract_serverless_applications env resources ignore_code_extraction_warnings =
     extract_loop env ignore_code_extraction_warnings resources []"

section \<open>The provider\<close>

text \<open>
  The instance attributes. \<^verbatim>\<open>__init__\<close> assigns \<^verbatim>\<open>template_dict\<close>,
  \<^verbatim>\<open>ignore_code_extraction_warnings\<close>, \<^verbatim>\<open>resources\<close> and \<^verbatim>\<open>functions\<close> (and
  \<^verbatim>\<open>_colored\<close>, a colour helper that nothing here reads). The attribute
  \<^verbatim>\<open>functions\<close> is the field \<open>self_functions\<close>; it holds the index that the
  extraction returns.

  \<^verbatim>\<open>get_all\<close> reads \<^verbatim>\<open>self.applications\<close>. No statement of the class assigns that
  attribute, and the constructor does not call the constructor of the base class, so the
  object has no such attribute after \<^verbatim>\<open>__init__\<close>; the base class, which is not part of
  the sources, is taken to supply the names of the section above and nothing else. The
  field is therefore optional, \<open>None\<close> being the missing attribute, and the model of
  \<^verbatim>\<open>__init__\<close> leaves it \<open>None\<close>.
\<close>

record provider =
  template_dict :: pyval
  ignore_code_extraction_warnings :: bool
  resources :: pydict
  self_functions :: index
  applications :: "index option"

text \<open>
  \<^verbatim>\<open>__init__(template_dict, parameter_overrides, ignore_code_extraction_warnings)\<close>.
  \<^verbatim>\<open>self.resources\<close> is the \<^verbatim>\<open>Resources\<close> object of the resolved template, so what the
  extraction writes shows in \<^verbatim>\<open>self.template_dict\<close> too. A \<^verbatim>\<open>Resources\<close> entry that is
  not a dictionary fails at \<^verbatim>\<open>len\<close> (None, booleans, numbers) or at \<^verbatim>\<open>.items()\<close>
  (strings, lists).
\<close>

definition init :: "imported \<Rightarrow> pyval \<Rightarrow> pyval \<Rightarrow> bool \<Rightarrow> error + provider" where
  "init env template parameter_overrides ign =
     (case get_template env template parameter_overrides of
        PDict t \<Rightarrow>
          (case dict_get t ''Resources'' (PDict []) of
             PDict rs \<Rightarrow>
               (case extract_serverless_applications env rs ign of
                  (rs', Inl e) \<Rightarrow> Inl e
                | (rs', Inr fs) \<Rightarrow>
                    Inr \<lparr>template_dict =
                           (if map_of t ''Resources'' = None then PDict t
                            else PDict (AList.update ''Resources'' (PDict rs') t)),
                         ignore_code_extraction_warnings = ign,
                         resources = rs',
                         self_functions = fs,
                         applications = None\<rparr>)
           | PStr s \<Rightarrow> Inl AttributeError
           | PList xs \<Rightarrow> Inl AttributeError
           | _ \<Rightarrow> Inl TypeError)
      | _ \<Rightarrow> Inl AttributeError)"

text \<open>
  \<^verbatim>\<open>get_all()\<close> is a generator; its outcome is the list of the records it yields, or the
  exception that ends it. The body reads \<^verbatim>\<open>self.applications\<close> before the first yield.
\<close>

definition get_all :: "provider \<Rightarrow> error + ServerlessApplication list" where
  "get_all self =
     (case applications self of
        None \<Rightarrow> Inl AttributeError
      | Some apps \<Rightarrow> Inr (map snd apps))"

text \<open>The scan of \<^verbatim>\<open>get\<close> over the records that \<^verbatim>\<open>get_all\<close> yields.\<close>

fun get_loop :: "string \<Rightarrow> ServerlessApplication list \<Rightarrow> ServerlessApplication option" where
  "get_loop n [] = None"
| "get_loop n (f # fs) =
     (if name f = n then Some f
      else if applicationname f = PStr n then Some f
      else get_loop n fs)"

text \<open>
  \<^verbatim>\<open>get(name)\<close>, with \<open>None\<close> for Python's None. The result \<open>Inr None\<close> is the
  returned None.
\<close>

definition get :: "provider \<Rightarrow> string option \<Rightarrow> error + ServerlessApplication option" where
  "get self nm =
     (case nm of
        None \<Rightarrow> Inl ValueError
      | Some n \<Rightarrow>
          if n = [] then Inl ValueError
          else (case get_all self of
                  Inl e \<Rightarrow> Inl e
                | Inr fs \<Rightarrow> Inr (get_loop n fs)))"

section \<open>Notions used in the statements\<close>



section \<open>Templates and providers for concrete evaluation\<close>







text \<open>
  A provider object whose attribute \<^verbatim>\<open>applications\<close> has been set: the first record's
  identity is the second record's display name.
\<close>

definition plain_app :: "string \<Rightarrow> pyval \<Rightarrow> ServerlessApplication" where
  "plain_app nm display =
     \<lparr>name = nm, location = PStr ''./child/template.yaml'', notification_arns = PStr ''Zip'',
      parameters = PNone, tags = PNone, timeout = PNone, applicationname = display\<rparr>"

definition populated_provider :: provider where
  "populated_provider =
     \<lparr>template_dict = PDict [],
      ignore_code_extraction_warnings = False,
      resources = [],
      self_functions = [],
      applications =
        Some [(''Shared'', plain_app ''Shared'' PNone),
              (''Other'', plain_app ''Other'' (PStr ''Shared''))]\<rparr>"

section \<open>Auxiliary lemmas\<close>


subsection \<open>Dictionaries\<close>



subsection \<open>One pass of the loop body\<close>






subsection \<open>The whole loop\<close>







subsection \<open>The provider after construction\<close>

lemma init_applications_unset: "init env t po ign = Inr self \<Longrightarrow> applications self = None"
  by (auto simp: init_def split: pyval.splits prod.splits sum.splits)

lemma get_all_after_init: "init env t po ign = Inr self \<Longrightarrow> get_all self = Inl AttributeError"
  by (simp add: get_all_def init_applications_unset)

lemma get_after_init:
  "init env t po ign = Inr self \<Longrightarrow> n \<noteq> [] \<Longrightarrow> get self (Some n) = Inl AttributeError"
  by (simp add: get_def get_all_after_init)


subsection \<open>The warnings flag\<close>

lemma extract_resource_flag:
  "extract_resource env a nm r res = extract_resource env b nm r res"
  unfolding extract_resource_def convert_sam_serverless_application_resource_def by (rule refl)

lemma extract_loop_flag: "extract_loop env a rs res = extract_loop env b rs res"
proof (induction rs arbitrary: res)
  case Nil
  then show ?case by simp
next
  case (Cons x rs)
  obtain nm r where x: "x = (nm, r)" by (cases x)
  have "extract_resource env a nm r res = extract_resource env b nm r res"
    by (rule extract_resource_flag)
  with Cons.IH x show ?case by (simp split: prod.splits sum.splits)
qed

subsection \<open>The index\<close>



section \<open>The location of a record\<close>




section \<open>Enumeration after construction\<close>




section \<open>Lookup\<close>





text \<open>
  C6: \<^verbatim>\<open>get\<close> raises ValueError exactly when the name is None or the empty string,
  on every provider object.
\<close>

theorem get_ValueError_iff_no_name:
  "(get self nm = Inl ValueError) = (nm = None \<or> nm = Some [])"
  by (cases nm) (auto simp: get_def get_all_def split: option.splits)

theorem get_ValueError_iff_no_name_witness:
  "get populated_provider None = Inl ValueError \<and>
   get populated_provider (Some []) = Inl ValueError \<and>
   get populated_provider (Some ''App'') \<noteq> Inl ValueError"
  using get_ValueError_iff_no_name[of populated_provider None]
        get_ValueError_iff_no_name[of populated_provider "Some []"]
        get_ValueError_iff_no_name[of populated_provider "Some ''App''"]
  by simp

section \<open>What the extraction writes\<close>




section \<open>Type tags\<close>




section \<open>The warnings flag and the index\<close>

text \<open>
  C10: the flag \<^verbatim>\<open>ignore_code_extraction_warnings\<close> has no effect on the extraction,
  neither on its outcome nor on what it writes, and the providers constructed with the
  flag set and with the flag cleared fail alike or hold the same index.
\<close>

theorem flag_does_not_change_index:
  "extract_serverless_applications env rs True = extract_serverless_applications env rs False \<and>
   map_sum id self_functions (init env t po True) = map_sum id self_functions (init env t po False)"
proof -
  have e: "\<And>rs. extract_serverless_applications env rs True =
                 extract_serverless_applications env rs False"
    by (simp add: extract_serverless_applications_def extract_loop_flag[of env True _ _ False])
  show ?thesis
    by (auto simp: e init_def split: pyval.splits prod.splits sum.splits)
qed

end
